theory Spec2Isabelle
  imports Complex_Main "HOL-Library.Multiset"
begin

section \<open>Signal-to-noise ratio of an image region: the three script variants\<close>

text \<open>
  The repository holds three variants of one function \<open>snr(img, smask, nmask=None)\<close>:
  \<^item> \<^verbatim>\<open>03_snr_median.py\<close>: median over the population standard deviation;
  \<^item> \<^verbatim>\<open>05_snr_dietrich2007.py\<close>: a median-centred, Bessel-normalised dispersion when no
    noise mask is given, and the Rayleigh-corrected sample standard deviation otherwise;
  \<^item> \<^verbatim>\<open>99_snr_original.py\<close>: as the second, after a mask preparation step.

  Arrays are modelled flattened (every operation used is elementwise or a full reduction):
  an image is a list of reals, a mask a list of integers (a boolean mask is a list of 0 and
  1, a label map a list of labels).

  Scalars computed by numpy are values of \<open>f64\<close>: a finite real, the negative zero, the two
  infinities, or NaN. Arithmetic on finite values is exact real arithmetic (rounding,
  overflow and underflow of the 64-bit format are not modelled); what is modelled is the
  IEEE-754 treatment of the special values, which is what numpy returns, with a warning
  and without an exception, on a division by zero or an invalid operation. A second model
  of \<^verbatim>\<open>05_snr_dietrich2007.py\<close> adds the overflow and the underflow of the 64-bit
  format, for the one property that depends on them.
\<close>

subsection \<open>Scalars\<close>

datatype f64 = Fin real | NegZero | PInf | NInf | NaN

datatype error = IndexError

fun is_inf :: "f64 \<Rightarrow> bool" where
  "is_inf PInf = True"
| "is_inf NInf = True"
| "is_inf _ = False"

fun is_zero :: "f64 \<Rightarrow> bool" where
  "is_zero (Fin x) = (x = 0)"
| "is_zero NegZero = True"
| "is_zero _ = False"

text \<open>The sign bit.\<close>

fun signbit :: "f64 \<Rightarrow> bool" where
  "signbit (Fin x) = (x < 0)"
| "signbit NegZero = True"
| "signbit NInf = True"
| "signbit _ = False"

fun fval :: "f64 \<Rightarrow> real" where
  "fval (Fin x) = x"
| "fval _ = 0"

fun fminus :: "f64 \<Rightarrow> f64" where
  "fminus (Fin x) = (if x = 0 then NegZero else Fin (- x))"
| "fminus NegZero = Fin 0"
| "fminus PInf = NInf"
| "fminus NInf = PInf"
| "fminus NaN = NaN"

definition fadd :: "f64 \<Rightarrow> f64 \<Rightarrow> f64" where
  "fadd a b =
     (if a = NaN \<or> b = NaN then NaN
      else if is_inf a \<and> is_inf b then (if a = b then a else NaN)
      else if is_inf a then a
      else if is_inf b then b
      else if a = NegZero \<and> b = NegZero then NegZero
      else Fin (fval a + fval b))"

definition fsub :: "f64 \<Rightarrow> f64 \<Rightarrow> f64" where
  "fsub a b = fadd a (fminus b)"

definition fmul :: "f64 \<Rightarrow> f64 \<Rightarrow> f64" where
  "fmul a b =
     (if a = NaN \<or> b = NaN then NaN
      else if (is_inf a \<and> is_zero b) \<or> (is_zero a \<and> is_inf b) then NaN
      else if is_inf a \<or> is_inf b then (if signbit a = signbit b then PInf else NInf)
      else if is_zero a \<or> is_zero b then (if signbit a = signbit b then Fin 0 else NegZero)
      else Fin (fval a * fval b))"

text \<open>
  Division of numpy scalars: a zero divisor gives an infinity, or NaN for \<open>0 / 0\<close>, and a
  \<open>RuntimeWarning\<close>; no exception is raised.
\<close>

definition fdiv :: "f64 \<Rightarrow> f64 \<Rightarrow> f64" where
  "fdiv a b =
     (if a = NaN \<or> b = NaN then NaN
      else if (is_inf a \<and> is_inf b) \<or> (is_zero a \<and> is_zero b) then NaN
      else if is_inf a \<or> is_zero b then (if signbit a = signbit b then PInf else NInf)
      else if is_zero a \<or> is_inf b then (if signbit a = signbit b then Fin 0 else NegZero)
      else Fin (fval a / fval b))"

fun fsqrt :: "f64 \<Rightarrow> f64" where
  "fsqrt (Fin x) = (if x < 0 then NaN else Fin (sqrt x))"
| "fsqrt NegZero = NegZero"
| "fsqrt PInf = PInf"
| "fsqrt NInf = NaN"
| "fsqrt NaN = NaN"

subsection \<open>The numpy operations the scripts call\<close>

text \<open>
  \<open>img[mask > 0]\<close>: the image values at the positions where the mask is positive, in
  order. A mask of another shape raises \<open>IndexError\<close>.
\<close>

definition bool_index :: "real list \<Rightarrow> int list \<Rightarrow> error + real list" where
  "bool_index img msk =
     (if length msk = length img
      then Inr (map fst (filter (\<lambda>(v, m). m > 0) (zip img msk)))
      else Inl IndexError)"

text \<open>\<open>np.sum\<close> of a float array: 0.0 for the empty array.\<close>

fun np_sum :: "f64 list \<Rightarrow> f64" where
  "np_sum [] = Fin 0"
| "np_sum (x # xs) = foldl fadd x xs"

definition np_mean :: "f64 list \<Rightarrow> f64" where
  "np_mean a = fdiv (np_sum a) (Fin (real (length a)))"

text \<open>
  \<open>np.median\<close> of a one-dimensional array: the mean of the middle element (odd size) or
  of the two middle elements (even size) of the ordered array; the slice is empty for
  the empty array, whose mean is NaN.
\<close>

definition np_median :: "real list \<Rightarrow> f64" where
  "np_median a =
     (let sz = length a;
          part = sort a;
          index = sz div 2;
          middle = (if sz = 0 then []
                    else if sz mod 2 = 1 then take 1 (drop index part)
                    else take 2 (drop (index - 1) part))
      in np_mean (map Fin middle))"

text \<open>
  \<open>a.std(ddof=d)\<close>: the mean, the squared deviations from it, their sum over
  \<open>max(N - d, 0)\<close>, and the square root.
\<close>

definition np_std :: "int \<Rightarrow> real list \<Rightarrow> f64" where
  "np_std ddof a =
     (let rcount = int (length a);
          arrmean = fdiv (np_sum (map Fin a)) (Fin (real_of_int rcount));
          x = map (\<lambda>v. fsub (Fin v) arrmean) a;
          x = map (\<lambda>v. fmul v v) x;
          ret = np_sum x;
          rcount = max (rcount - ddof) 0
      in fsqrt (fdiv ret (Fin (real_of_int rcount))))"

subsection \<open>\<^verbatim>\<open>05_snr_dietrich2007.py\<close>\<close>

text \<open>The constant \<open>np.sqrt(2.0/(4.0 - pi))\<close>.\<close>

definition rayleigh_factor :: real where
  "rayleigh_factor = sqrt (2 / (4 - pi))"

text \<open>
  The noise estimate \<open>bg_std\<close> (lines 8 to 14). Without a noise mask the divisor is
  \<open>np.sum(nmask) - 1\<close>: the sum of the mask's values, less one.
\<close>

definition bg_std05 :: "real list \<Rightarrow> int list \<Rightarrow> int list option \<Rightarrow> error + f64" where
  "bg_std05 img smask nmask =
     (case nmask of
        None \<Rightarrow>
          (case bool_index img smask of
             Inl e \<Rightarrow> Inl e
           | Inr region \<Rightarrow>
               let bg_mean = np_median region;
                   dev = map (\<lambda>v. fsub (Fin v) bg_mean) region;
                   sq = map (\<lambda>v. fmul v v) dev
               in Inr (fsqrt (fdiv (np_sum sq) (Fin (real_of_int (sum_list smask - 1))))))
      | Some nm \<Rightarrow>
          (case bool_index img nm of
             Inl e \<Rightarrow> Inl e
           | Inr region \<Rightarrow> Inr (fmul (Fin rayleigh_factor) (np_std 1 region))))"

text \<open>
  The function: the foreground median over the noise estimate. \<open>float(...)\<close> turns the
  numpy scalar into a Python float of the same value.
\<close>

definition snr05 :: "real list \<Rightarrow> int list \<Rightarrow> int list option \<Rightarrow> error + f64" where
  "snr05 img smask nmask =
     (case bool_index img smask of
        Inl e \<Rightarrow> Inl e
      | Inr fg \<Rightarrow>
          let fg_mean = np_median fg
          in (case bg_std05 img smask nmask of
                Inl e \<Rightarrow> Inl e
              | Inr bg_std \<Rightarrow> Inr (fdiv fg_mean bg_std)))"

subsection \<open>\<^verbatim>\<open>03_snr_median.py\<close>\<close>

definition snr03 :: "real list \<Rightarrow> int list \<Rightarrow> int list option \<Rightarrow> error + f64" where
  "snr03 img smask nmask =
     (case bool_index img smask of
        Inl e \<Rightarrow> Inl e
      | Inr fg \<Rightarrow>
          let fg_mean = np_median fg;
              nmask' = (case nmask of None \<Rightarrow> smask | Some nm \<Rightarrow> nm)
          in (case bool_index img nmask' of
                Inl e \<Rightarrow> Inl e
              | Inr region \<Rightarrow> Inr (fdiv fg_mean (np_std 0 region))))"

subsection \<open>\<^verbatim>\<open>99_snr_original.py\<close>\<close>

text \<open>
  The file is an excerpt of a larger module: it neither imports \<open>np\<close> and \<open>pi\<close> nor
  defines the helper \<open>_prepare_mask(mask, label, erode)\<close>. The names \<open>np\<close> and \<open>pi\<close> are
  read as in the other two scripts (numpy and \<open>math.pi\<close>); the helper is the parameter
  \<open>prep\<close>.
\<close>

text \<open>
  The noise estimate \<open>bg_std\<close> (lines 42 to 48), from the prepared masks and the foreground
  median, which the branch without a noise mask reuses as \<open>bg_mean\<close>.
\<close>

definition bg_std99 :: "real list \<Rightarrow> int list \<Rightarrow> int list option \<Rightarrow> f64 \<Rightarrow> error + f64" where
  "bg_std99 img fgmask bgmask fg_mean =
     (case bgmask of
        None \<Rightarrow>
          (case bool_index img fgmask of
             Inl e \<Rightarrow> Inl e
           | Inr region \<Rightarrow>
               let bg_mean = fg_mean;
                   dev = map (\<lambda>v. fsub (Fin v) bg_mean) region;
                   sq = map (\<lambda>v. fmul v v) dev
               in Inr (fsqrt (fdiv (np_sum sq) (Fin (real_of_int (sum_list fgmask - 1))))))
      | Some bm \<Rightarrow>
          (case bool_index img bm of
             Inl e \<Rightarrow> Inl e
           | Inr region \<Rightarrow> Inr (fmul (Fin rayleigh_factor) (np_std 1 region))))"

definition snr99 ::
  "(int list \<Rightarrow> int \<Rightarrow> bool \<Rightarrow> int list) \<Rightarrow>
   real list \<Rightarrow> int list \<Rightarrow> int list option \<Rightarrow> bool \<Rightarrow> int \<Rightarrow> error + f64" where
  "snr99 prep img smask nmask erode fglabel =
     (let fgmask = prep smask fglabel erode;
          bgmask = (case nmask of None \<Rightarrow> None | Some nm \<Rightarrow> Some (prep nm 1 erode))
      in case bool_index img fgmask of
           Inl e \<Rightarrow> Inl e
         | Inr fg \<Rightarrow>
             let fg_mean = np_median fg
             in (case bg_std99 img fgmask bgmask fg_mean of
                   Inl e \<Rightarrow> Inl e
                 | Inr bg_std \<Rightarrow> Inr (fdiv fg_mean bg_std)))"

subsection \<open>\<^verbatim>\<open>05_snr_dietrich2007.py\<close> within the range of the doubles\<close>

text \<open>
  A second model of the same script, for what happens at the ends of the range: as the
  first, but a finite result that is too large for a double overflows to an infinity and
  one that is too small underflows to zero. Rounding inside the range is still not
  modelled.
\<close>

text \<open>
  The largest double is \<open>2 ^ 1024 - 2 ^ 971\<close>; rounding to nearest, a result of magnitude
  \<open>2 ^ 1024 - 2 ^ 970\<close> or more becomes an infinity, and a non-zero result of magnitude
  \<open>2 ^ -1075\<close> or less becomes a zero, of the same sign.
\<close>

definition overflow_threshold :: real where
  "overflow_threshold = 2 ^ 1024 - 2 ^ 970"

definition underflow_threshold :: real where
  "underflow_threshold = 1 / 2 ^ 1075"

fun to_range :: "f64 \<Rightarrow> f64" where
  "to_range (Fin x) =
     (if overflow_threshold \<le> \<bar>x\<bar> then (if x < 0 then NInf else PInf)
      else if 0 < \<bar>x\<bar> \<and> \<bar>x\<bar> \<le> underflow_threshold then (if x < 0 then NegZero else Fin 0)
      else Fin x)"
| "to_range NegZero = NegZero"
| "to_range PInf = PInf"
| "to_range NInf = NInf"
| "to_range NaN = NaN"

text \<open>The operations, with the result brought into the range.\<close>

definition dadd :: "f64 \<Rightarrow> f64 \<Rightarrow> f64" where
  "dadd a b = to_range (fadd a b)"

definition dsub :: "f64 \<Rightarrow> f64 \<Rightarrow> f64" where
  "dsub a b = to_range (fsub a b)"

definition dmul :: "f64 \<Rightarrow> f64 \<Rightarrow> f64" where
  "dmul a b = to_range (fmul a b)"

definition ddiv :: "f64 \<Rightarrow> f64 \<Rightarrow> f64" where
  "ddiv a b = to_range (fdiv a b)"

text \<open>The numpy operations and the script, as above, over these operations.\<close>

fun np_sum_d :: "f64 list \<Rightarrow> f64" where
  "np_sum_d [] = Fin 0"
| "np_sum_d (x # xs) = foldl dadd x xs"

definition np_mean_d :: "f64 list \<Rightarrow> f64" where
  "np_mean_d a = ddiv (np_sum_d a) (Fin (real (length a)))"

definition np_median_d :: "real list \<Rightarrow> f64" where
  "np_median_d a =
     (let sz = length a;
          part = sort a;
          index = sz div 2;
          middle = (if sz = 0 then []
                    else if sz mod 2 = 1 then take 1 (drop index part)
                    else take 2 (drop (index - 1) part))
      in np_mean_d (map Fin middle))"

definition np_std_d :: "int \<Rightarrow> real list \<Rightarrow> f64" where
  "np_std_d ddof a =
     (let rcount = int (length a);
          arrmean = ddiv (np_sum_d (map Fin a)) (Fin (real_of_int rcount));
          x = map (\<lambda>v. dsub (Fin v) arrmean) a;
          x = map (\<lambda>v. dmul v v) x;
          ret = np_sum_d x;
          rcount = max (rcount - ddof) 0
      in fsqrt (ddiv ret (Fin (real_of_int rcount))))"

definition bg_std05_d :: "real list \<Rightarrow> int list \<Rightarrow> int list option \<Rightarrow> error + f64" where
  "bg_std05_d img smask nmask =
     (case nmask of
        None \<Rightarrow>
          (case bool_index img smask of
             Inl e \<Rightarrow> Inl e
           | Inr reg \<Rightarrow>
               let bg_mean = np_median_d reg;
                   dev = map (\<lambda>v. dsub (Fin v) bg_mean) reg;
                   sq = map (\<lambda>v. dmul v v) dev
               in Inr (fsqrt (ddiv (np_sum_d sq) (Fin (real_of_int (sum_list smask - 1))))))
      | Some nm \<Rightarrow>
          (case bool_index img nm of
             Inl e \<Rightarrow> Inl e
           | Inr reg \<Rightarrow> Inr (dmul (Fin rayleigh_factor) (np_std_d 1 reg))))"

definition snr05_d :: "real list \<Rightarrow> int list \<Rightarrow> int list option \<Rightarrow> error + f64" where
  "snr05_d img smask nmask =
     (case bool_index img smask of
        Inl e \<Rightarrow> Inl e
      | Inr fg \<Rightarrow>
          let fg_mean = np_median_d fg
          in (case bg_std05_d img smask nmask of
                Inl e \<Rightarrow> Inl e
              | Inr bg_std \<Rightarrow> Inr (ddiv fg_mean bg_std)))"

subsection \<open>The statistics of the specification, in real arithmetic\<close>

text \<open>
  These follow the specification's words, not the scripts: the median (the middle value of
  the ordered sample, or the mean of the two middle values), the mean, and the sum of
  squared deviations from a centre, of a non-empty sample. The scripts are compared with
  them.
\<close>

definition median :: "real list \<Rightarrow> real" where
  "median xs =
     (let s = sort xs; n = length xs
      in if odd n then s ! (n div 2) else (s ! (n div 2 - 1) + s ! (n div 2)) / 2)"

definition mean :: "real list \<Rightarrow> real" where
  "mean xs = sum_list xs / real (length xs)"

definition ssq :: "real \<Rightarrow> real list \<Rightarrow> real" where
  "ssq c xs = (\<Sum>x\<leftarrow>xs. (x - c)\<^sup>2)"

text \<open>
  The standard deviation about the mean with \<open>N - d\<close> in the normaliser: the sample
  standard deviation for \<open>d = 1\<close>, the population standard deviation for \<open>d = 0\<close>.
\<close>

definition std_ddof :: "nat \<Rightarrow> real list \<Rightarrow> real" where
  "std_ddof d xs = sqrt (ssq (mean xs) xs / (real (length xs) - real d))"

text \<open>The region a mask of the image's shape selects: the values where the mask is positive.\<close>

definition region :: "real list \<Rightarrow> int list \<Rightarrow> real list" where
  "region img msk = map fst (filter (\<lambda>(v, m). m > 0) (zip img msk))"

text \<open>A mask of zeros and ones, as a boolean mask is.\<close>

definition binary_mask :: "int list \<Rightarrow> bool" where
  "binary_mask msk = list_all (\<lambda>m. m = 0 \<or> m = 1) msk"

section \<open>The numpy operations on finite values\<close>

lemma fsub_Fin: "fsub (Fin a) (Fin b) = Fin (a - b)"
  by (simp add: fsub_def fadd_def)

lemma fmul_Fin_self: "fmul (Fin a) (Fin a) = Fin (a * a)"
  by (simp add: fmul_def)

lemma fmul_Fin_pos: "0 < c \<Longrightarrow> fmul (Fin c) (Fin b) = Fin (c * b)"
  by (simp add: fmul_def)

lemma fdiv_Fin:
  "b \<noteq> 0 \<Longrightarrow> fdiv (Fin a) (Fin b) = (if a = 0 \<and> b < 0 then NegZero else Fin (a / b))"
  by (auto simp add: fdiv_def)

lemma fdiv_Fin_pos: "0 < b \<Longrightarrow> fdiv (Fin a) (Fin b) = Fin (a / b)"
  by (simp add: fdiv_Fin)

lemma foldl_fadd_Fin: "foldl fadd (Fin a) (map Fin xs) = Fin (a + sum_list xs)"
  by (induction xs arbitrary: a) (simp_all add: fadd_def add.assoc)

lemma np_sum_Fin: "np_sum (map Fin xs) = Fin (sum_list xs)"
  by (cases xs) (simp_all add: foldl_fadd_Fin)

lemma np_mean_one: "np_mean [Fin a] = Fin a"
  by (simp add: np_mean_def fdiv_def)

lemma np_mean_two: "np_mean [Fin a, Fin b] = Fin ((a + b) / 2)"
  by (simp add: np_mean_def fdiv_def fadd_def)

lemma np_median_Nil: "np_median [] = NaN"
  by (simp add: np_median_def np_mean_def fdiv_def)

lemma take1_drop: "i < length s \<Longrightarrow> take (Suc 0) (drop i s) = [s ! i]"
  by (simp add: Cons_nth_drop_Suc [symmetric])

lemma take2_drop: "Suc i < length s \<Longrightarrow> take 2 (drop i s) = [s ! i, s ! Suc i]"
  by (simp add: Cons_nth_drop_Suc [symmetric] numeral_2_eq_2)

text \<open>On a non-empty sample \<open>np.median\<close> is the median.\<close>

lemma np_median_Fin:
  assumes "xs \<noteq> []"
  shows "np_median xs = Fin (median xs)"
proof (cases "odd (length xs)")
  case True
  then have m: "length xs mod 2 = 1" by presburger
  have "length xs div 2 < length (sort xs)" using assms by simp
  then have "take (Suc 0) (drop (length xs div 2) (sort xs)) = [sort xs ! (length xs div 2)]"
    by (rule take1_drop)
  with True m assms show ?thesis
    by (simp add: np_median_def median_def Let_def np_mean_one np_mean_two)
next
  case False
  then have m: "length xs mod 2 \<noteq> 1" by presburger
  from False assms have pos: "0 < length xs div 2"
    by (cases xs) (auto elim: evenE)
  then have "Suc (length xs div 2 - 1) < length (sort xs)" by simp
  then have "take 2 (drop (length xs div 2 - 1) (sort xs))
           = [sort xs ! (length xs div 2 - 1), sort xs ! Suc (length xs div 2 - 1)]"
    by (rule take2_drop)
  with False m assms pos show ?thesis
    by (simp add: np_median_def median_def Let_def np_mean_one np_mean_two)
qed

lemma bool_index_region: "length msk = length img \<Longrightarrow> bool_index img msk = Inr (region img msk)"
  by (simp add: bool_index_def region_def)

lemma bool_index_mismatch: "length msk \<noteq> length img \<Longrightarrow> bool_index img msk = Inl IndexError"
  by (simp add: bool_index_def)

lemma sq_dev_Fin:
  "map (\<lambda>v. fmul v v) (map (\<lambda>v. fsub (Fin v) (Fin c)) xs) = map Fin (map (\<lambda>x. (x - c)\<^sup>2) xs)"
  by (simp add: fsub_Fin fmul_Fin_self power2_eq_square)

lemma np_sum_sq_dev: "np_sum (map (\<lambda>v. fmul v v) (map (\<lambda>v. fsub (Fin v) (Fin c)) xs)) = Fin (ssq c xs)"
  by (simp only: sq_dev_Fin np_sum_Fin ssq_def)

lemma ssq_nonneg: "0 \<le> ssq c xs"
  by (auto simp: ssq_def intro!: sum_list_nonneg)

lemma np_std_Fin:
  assumes "d < length xs"
  shows "np_std (int d) xs = Fin (std_ddof d xs)"
proof -
  from assms have ne: "xs \<noteq> []" by auto
  have m: "fdiv (np_sum (map Fin xs)) (Fin (real_of_int (int (length xs)))) = Fin (mean xs)"
    using ne by (simp add: np_sum_Fin fdiv_Fin_pos mean_def)
  have r: "real_of_int (max (int (length xs) - int d) 0) = real (length xs) - real d"
    using assms by simp
  have pos: "0 < real (length xs) - real d" using assms by simp
  have nn: "\<not> ssq (mean xs) xs / (real (length xs) - real d) < 0"
    using ssq_nonneg [of "mean xs" xs] pos by (simp add: not_less)
  show ?thesis
    unfolding np_std_def Let_def m np_sum_sq_dev r
    using pos nn by (simp add: fdiv_Fin_pos std_ddof_def)
qed

lemma np_std_few:
  assumes "length xs \<le> 1" "int (length xs) \<le> ddof"
  shows "np_std ddof xs = NaN"
proof (cases xs)
  case Nil
  with assms show ?thesis
    by (simp add: np_std_def Let_def fdiv_def)
next
  case (Cons a as)
  with assms have xs: "xs = [a]" by simp
  have r: "max (int (length xs) - ddof) 0 = 0" using assms by simp
  show ?thesis
    unfolding np_std_def Let_def r
    by (simp add: xs fdiv_def fsub_def fadd_def fmul_def)
qed

text \<open>The median-centred dispersion of the branch without a noise mask.\<close>

lemma caseA_dispersion:
  "fsqrt (fdiv (np_sum (map (\<lambda>v. fmul v v) (map (\<lambda>v. fsub (Fin v) (np_median r)) r))) (Fin q))
   = fsqrt (fdiv (Fin (ssq (median r) r)) (Fin q))"
proof (cases "r = []")
  case True
  then show ?thesis by (simp add: ssq_def)
next
  case False
  then have "np_median r = Fin (median r)" by (rule np_median_Fin)
  then show ?thesis by (simp only: np_sum_sq_dev)
qed

lemma rayleigh_factor_pos: "0 < rayleigh_factor"
  using pi_less_4 by (simp add: rayleigh_factor_def)

lemma sum_list_binary_mask:
  "length msk = length img \<Longrightarrow> binary_mask msk \<Longrightarrow> sum_list msk = int (length (region img msk))"
proof (induction img msk rule: list_induct2')
  case (4 x xs y ys)
  then show ?case by (auto simp: region_def binary_mask_def)
qed (simp_all add: region_def binary_mask_def)

section \<open>The branch with a noise mask\<close>


lemma snr05_B:
  assumes "length smask = length img" "length nm = length img"
  shows "snr05 img smask (Some nm)
       = Inr (fdiv (np_median (region img smask))
                   (fmul (Fin rayleigh_factor) (np_std 1 (region img nm))))"
  using assms by (simp add: snr05_def bg_std05_def bool_index_region)

lemma snr05_A:
  assumes "length smask = length img"
  shows "snr05 img smask None
       = Inr (fdiv (np_median (region img smask))
                   (fsqrt (fdiv (Fin (ssq (median (region img smask)) (region img smask)))
                                (Fin (real_of_int (sum_list smask - 1))))))"
  using assms
  by (simp only: snr05_def bg_std05_def bool_index_region Let_def option.case sum.case
        caseA_dispersion)





subsection \<open>Bounds on \<open>pi\<close> for the numerical value of an example\<close>














lemma median_example: "median [90, 100, 110] = 100"
  by (simp add: median_def)



section \<open>The branch without a noise mask\<close>

lemma snr05_A_binary_value:
  assumes "length smask = length img" and "binary_mask smask"
    and "2 \<le> length (region img smask)"
    and "ssq (median (region img smask)) (region img smask) \<noteq> 0"
  shows "snr05 img smask None
       = Inr (Fin (median (region img smask)
                   / sqrt (ssq (median (region img smask)) (region img smask)
                           / (real (length (region img smask)) - 1))))"
proof -
  let ?r = "region img smask"
  have d: "real_of_int (sum_list smask - 1) = real (length ?r) - 1"
    by (simp add: sum_list_binary_mask [OF assms(1,2)])
  have dpos: "0 < real (length ?r) - 1" using assms(3) by simp
  have "0 \<le> ssq (median ?r) ?r" by (rule ssq_nonneg)
  with assms(4) have spos: "0 < ssq (median ?r) ?r" by simp
  have qpos: "0 < ssq (median ?r) ?r / (real (length ?r) - 1)"
    using spos dpos by simp
  then have rpos: "0 < sqrt (ssq (median ?r) ?r / (real (length ?r) - 1))"
    by (simp only: real_sqrt_gt_zero)
  have ne: "?r \<noteq> []" using assms(3) by auto
  have "snr05 img smask None
      = Inr (fdiv (Fin (median ?r))
                  (fsqrt (Fin (ssq (median ?r) ?r / (real (length ?r) - 1)))))"
    by (simp only: snr05_A [OF assms(1)] d np_median_Fin [OF ne] fdiv_Fin_pos [OF dpos])
  also have "\<dots> = Inr (fdiv (Fin (median ?r))
                            (Fin (sqrt (ssq (median ?r) ?r / (real (length ?r) - 1)))))"
    using qpos by simp
  finally show ?thesis
    by (simp only: fdiv_Fin_pos [OF rpos])
qed

lemma snr05_A_example: "snr05 [90, 100, 110] [1, 1, 1] None = Inr (Fin 10)"
proof -
  have r: "region [90, 100, 110] [1, 1, 1] = [90, 100, 110]"
    by (simp add: region_def)
  have s: "ssq 100 [90, 100, 110] = 200"
    by (simp add: ssq_def)
  have q: "sqrt 100 = 10"
    using real_sqrt_abs [of 10] by simp
  have "snr05 [90, 100, 110] [1, 1, 1] None = Inr (Fin (100 / sqrt (200 / (real 3 - 1))))"
    using snr05_A_binary_value [of "[1, 1, 1]" "[90, 100, 110]"]
    unfolding r median_example s by (simp add: binary_mask_def)
  then show ?thesis by (simp add: q)
qed

text \<open>
  C2. The divisor of the branch without a noise mask is \<open>np.sum(nmask) - 1\<close>, which is
  \<open>N - 1\<close> only for a mask of zeros and ones. On the region values 90, 100, 110 selected
  by the label mask 2, 2, 2 the dispersion is normalised by 5, not by 2, and the result
  is \<open>100 / sqrt 40\<close>, not 10.
\<close>

theorem snr05_label_mask_normaliser:
  "snr05 [90, 100, 110] [2, 2, 2] None = Inr (Fin (100 / sqrt 40))
   \<and> snr05 [90, 100, 110] [2, 2, 2] None \<noteq> Inr (Fin 10)"
proof -
  have r: "region [90, 100, 110] [2, 2, 2] = [90, 100, 110]"
    by (simp add: region_def)
  have s: "ssq 100 [90, 100, 110] = 200"
    by (simp add: ssq_def)
  have "snr05 [90, 100, 110] [2, 2, 2] None
      = Inr (fdiv (Fin 100) (fsqrt (fdiv (Fin 200) (Fin 5))))"
    using snr05_A [of "[2, 2, 2]" "[90, 100, 110]"]
    unfolding r median_example s np_median_Fin [of "[90, 100, 110]", simplified, unfolded median_example]
    by simp
  then have v: "snr05 [90, 100, 110] [2, 2, 2] None = Inr (Fin (100 / sqrt 40))"
    by (simp add: fdiv_Fin_pos)
  have "sqrt 40 \<noteq> 10"
  proof
    assume "sqrt 40 = 10"
    then have "(sqrt 40)\<^sup>2 = (10::real)\<^sup>2" by simp
    then show False by simp
  qed
  then have "100 / sqrt 40 \<noteq> 10"
    by (simp add: field_simps)
  with v show ?thesis by simp
qed

section \<open>The same mask passed twice\<close>







section \<open>The original script without a noise mask\<close>

text \<open>
  C10. Without a noise mask, and with a mask preparation that returns the foreground mask
  as it is, the original script and \<^verbatim>\<open>05_snr_dietrich2007.py\<close> return the same: the
  noise region is the foreground region, so the median that the one recomputes is the
  median that the other reuses.
\<close>

theorem snr99_no_noise_mask_eq_snr05:
  assumes "prep smask fglabel erode = smask"
  shows "snr99 prep img smask None erode fglabel = snr05 img smask None"
proof (cases "length smask = length img")
  case True
  then show ?thesis
    using assms
    by (simp add: snr99_def snr05_def bg_std99_def bg_std05_def bool_index_region Let_def)
next
  case False
  then show ?thesis
    using assms
    by (simp add: snr99_def snr05_def bool_index_mismatch Let_def)
qed

theorem snr99_no_noise_mask_eq_snr05_witness:
  "snr99 (\<lambda>m l e. m) [90, 100, 110] [1, 1, 1] None True 1 = Inr (Fin 10)"
  using snr99_no_noise_mask_eq_snr05 [of "\<lambda>m l e. m" "[1, 1, 1]" 1 True "[90, 100, 110]"]
  by (simp only: snr05_A_example)

section \<open>Degenerate regions\<close>

lemma fdiv_NaN_left: "fdiv NaN b = NaN"
  by (simp add: fdiv_def)

lemma fdiv_NaN_right: "fdiv a NaN = NaN"
  by (simp add: fdiv_def)

lemma fmul_NaN_right: "fmul a NaN = NaN"
  by (simp add: fmul_def)

lemma ssq_single: "ssq (median [x]) [x] = 0"
  by (simp add: ssq_def median_def)

lemma length_less_2: "length xs < 2 \<Longrightarrow> xs = [] \<or> (\<exists>x. xs = [x])"
  by (cases xs) (auto simp: length_Suc_conv)

text \<open>
  C8. No variant checks that a mask selects a sample. For masks of the image's shape of
  which the foreground mask, or the noise mask when one is given, selects nothing, the
  result is NaN and no error is raised.
\<close>

theorem snr05_empty_region_nan:
  assumes "length smask = length img"
    and "case nmask of
           None \<Rightarrow> region img smask = []
         | Some nm \<Rightarrow> length nm = length img \<and> (region img smask = [] \<or> region img nm = [])"
  shows "snr05 img smask nmask = Inr NaN"
proof (cases nmask)
  case None
  with assms have "region img smask = []" by simp
  then show ?thesis
    using None by (simp add: snr05_A [OF assms(1)] np_median_Nil fdiv_NaN_left)
next
  case (Some nm)
  with assms have len: "length nm = length img"
    and e: "region img smask = [] \<or> region img nm = []" by simp_all
  from e show ?thesis
  proof
    assume "region img smask = []"
    then show ?thesis
      using Some by (simp add: snr05_B [OF assms(1) len] np_median_Nil fdiv_NaN_left)
  next
    assume "region img nm = []"
    then have "np_std 1 (region img nm) = NaN"
      by (simp add: np_std_few)
    then show ?thesis
      using Some by (simp add: snr05_B [OF assms(1) len] fmul_NaN_right fdiv_NaN_right)
  qed
qed

theorem snr05_empty_region_nan_witness:
  "snr05 [5, 7, 9] [1, 1, 0] (Some [0, 0, 0]) = Inr NaN"
  using snr05_empty_region_nan [of "[1, 1, 0]" "[5, 7, 9]" "Some [0, 0, 0]"]
  by (simp add: region_def)

theorem snr05_empty_region_no_error:
  "snr05 [5, 7] [0, 0] None = Inr NaN"
proof -
  have "region [5, 7] [0, 0] = []" by (simp add: region_def)
  then show ?thesis
    using snr05_A [of "[0, 0]" "[5, 7]"] by (simp add: np_median_Nil fdiv_NaN_left)
qed

text \<open>
  C7. No variant checks the number of samples. For masks of the image's shape, a noise
  mask that selects fewer than two samples gives NaN; so does, without a noise mask, a
  foreground mask of zeros and ones that selects fewer than two samples. No error is
  raised.
\<close>

theorem snr05_few_samples_nan:
  assumes "length smask = length img"
    and "case nmask of
           None \<Rightarrow> binary_mask smask \<and> length (region img smask) < 2
         | Some nm \<Rightarrow> length nm = length img \<and> length (region img nm) < 2"
  shows "snr05 img smask nmask = Inr NaN"
proof (cases nmask)
  case None
  with assms have bin: "binary_mask smask" and few: "length (region img smask) < 2"
    by simp_all
  have d: "sum_list smask = int (length (region img smask))"
    using assms(1) bin by (rule sum_list_binary_mask)
  from few have "region img smask = [] \<or> (\<exists>x. region img smask = [x])"
    by (rule length_less_2)
  then show ?thesis
  proof
    assume "region img smask = []"
    then show ?thesis
      using None by (simp add: snr05_A [OF assms(1)] np_median_Nil fdiv_NaN_left)
  next
    assume "\<exists>x. region img smask = [x]"
    then obtain x where x: "region img smask = [x]" ..
    show ?thesis
      using None by (simp add: snr05_A [OF assms(1)] d x ssq_single fdiv_def)
  qed
next
  case (Some nm)
  with assms have len: "length nm = length img"
    and few: "length (region img nm) < 2" by simp_all
  from few have "np_std 1 (region img nm) = NaN"
    by (intro np_std_few) simp_all
  then show ?thesis
    using Some by (simp add: snr05_B [OF assms(1) len] fmul_NaN_right fdiv_NaN_right)
qed

theorem snr05_few_samples_nan_witness:
  "snr05 [5, 7, 9] [1, 0, 0] None = Inr NaN"
  using snr05_few_samples_nan [of "[1, 0, 0]" "[5, 7, 9]" None]
  by (simp add: region_def binary_mask_def)

theorem snr05_one_noise_sample_no_error:
  "snr05 [5, 7] [1, 1] (Some [1, 0]) = Inr NaN"
proof -
  have "region [5, 7] [1, 0] = [5]" by (simp add: region_def)
  then have "np_std 1 (region [5, 7] [1, 0]) = NaN"
    by (simp add: np_std_few)
  then show ?thesis
    using snr05_B [of "[1, 1]" "[5, 7]" "[1, 0]"]
    by (simp add: fmul_NaN_right fdiv_NaN_right)
qed

section \<open>A noise estimate of zero\<close>

lemma fdiv_by_zero: "is_zero z \<Longrightarrow> fdiv a z \<in> {PInf, NInf, NaN}"
  by (cases z) (simp_all add: fdiv_def)

text \<open>
  C6. The scripts divide with numpy's scalar division, which raises nothing. For a
  foreground mask of the image's shape, when the noise estimate is computed and is
  exactly zero, the result is an infinity or NaN, not an error.
\<close>

theorem snr05_zero_noise_not_finite:
  assumes "length smask = length img"
    and "bg_std05 img smask nmask = Inr z"
    and "is_zero z"
  shows "snr05 img smask nmask \<in> {Inr PInf, Inr NInf, Inr NaN}"
proof -
  have "snr05 img smask nmask = Inr (fdiv (np_median (region img smask)) z)"
    using assms(1,2) by (simp add: snr05_def bool_index_region)
  then show ?thesis
    using fdiv_by_zero [OF assms(3), of "np_median (region img smask)"] by auto
qed

lemma std_constant_pair: "np_std 1 [7, 7] = Fin 0"
proof -
  have "np_std (int 1) [7, 7] = Fin (std_ddof 1 [7, 7])"
    by (rule np_std_Fin) simp
  then show ?thesis
    by (simp add: std_ddof_def ssq_def mean_def)
qed

theorem snr05_zero_noise_not_finite_witness:
  "snr05 [100, 100, 7, 7] [1, 1, 0, 0] (Some [0, 0, 1, 1]) \<in> {Inr PInf, Inr NInf, Inr NaN}"
proof -
  have r: "region [100, 100, 7, 7] [0, 0, 1, 1] = [7, 7]"
    by (simp add: region_def)
  have "fmul (Fin rayleigh_factor) (Fin 0) = Fin 0"
    using rayleigh_factor_pos by (simp add: fmul_Fin_pos)
  then have b: "bg_std05 [100, 100, 7, 7] [1, 1, 0, 0] (Some [0, 0, 1, 1]) = Inr (Fin 0)"
    by (simp add: bg_std05_def bool_index_region r std_constant_pair)
  show ?thesis
    by (rule snr05_zero_noise_not_finite [OF _ b]) simp_all
qed

theorem snr05_constant_region_infinite:
  "snr05 [100, 100, 100] [1, 1, 1] None = Inr PInf"
proof -
  have r: "region [100, 100, 100] [1, 1, 1] = [100, 100, 100]"
    by (simp add: region_def)
  have m: "median [100, 100, 100] = 100"
    by (simp add: median_def)
  have n: "np_median [100, 100, 100] = Fin 100"
    using np_median_Fin [of "[100, 100, 100]"] by (simp add: m)
  have s: "ssq 100 [100, 100, 100] = 0"
    by (simp add: ssq_def)
  show ?thesis
    using snr05_A [of "[1, 1, 1]" "[100, 100, 100]"]
    unfolding r m n s by (simp add: fdiv_def)
qed

section \<open>The historical variant\<close>

lemma np_std_0:
  "np_std 0 xs = (if xs = [] then NaN else Fin (sqrt (ssq (mean xs) xs / real (length xs))))"
proof (cases "xs = []")
  case True
  then show ?thesis by (simp add: np_std_few)
next
  case False
  then have "0 < length xs" by simp
  then have "np_std (int 0) xs = Fin (std_ddof 0 xs)" by (rule np_std_Fin)
  with False show ?thesis by (simp add: std_ddof_def)
qed

lemma np_median_cases: "np_median xs = (if xs = [] then NaN else Fin (median xs))"
  by (simp add: np_median_Nil np_median_Fin)



section \<open>The numerator\<close>








section \<open>Scaling the intensities\<close>

lemma sort_scale:
  assumes "0 < (k::real)"
  shows "sort (map ((*) k) xs) = map ((*) k) (sort xs)"
proof (rule properties_for_sort)
  show "mset (map ((*) k) (sort xs)) = mset (map ((*) k) xs)" by simp
  have "sorted (sort xs)" by simp
  then have "sorted_wrt (\<lambda>x y. k * x \<le> k * y) (sort xs)"
    by (rule sorted_wrt_mono_rel [rotated]) (use assms in simp)
  then show "sorted (map ((*) k) (sort xs))"
    by (simp only: sorted_map)
qed

lemma region_scale: "region (map ((*) k) img) msk = map ((*) k) (region img msk)"
proof (induction img arbitrary: msk)
  case Nil
  then show ?case by (simp add: region_def)
next
  case (Cons x xs)
  then show ?case by (cases msk) (auto simp: region_def)
qed

lemma median_scale:
  assumes "0 < k" and "xs \<noteq> []"
  shows "median (map ((*) k) xs) = k * median xs"
proof -
  from assms(2) have "length xs div 2 < length xs" by simp
  then have n: "length xs div 2 < length (sort xs)" "length xs div 2 - 1 < length (sort xs)"
    by simp_all
  show ?thesis
    using n by (simp add: median_def Let_def sort_scale [OF assms(1)] distrib_left)
qed

lemma mean_scale: "mean (map ((*) k) xs) = k * mean xs"
  by (simp add: mean_def sum_list_const_mult)

lemma ssq_scale: "ssq (k * c) (map ((*) k) xs) = k\<^sup>2 * ssq c xs"
proof -
  have "(\<Sum>x\<leftarrow>xs. (k * x - k * c)\<^sup>2) = (\<Sum>x\<leftarrow>xs. k\<^sup>2 * (x - c)\<^sup>2)"
    by (simp add: right_diff_distrib [symmetric] power_mult_distrib)
  then show ?thesis
    by (simp add: ssq_def comp_def sum_list_const_mult)
qed

lemma std_ddof_scale: "0 < k \<Longrightarrow> std_ddof d (map ((*) k) xs) = k * std_ddof d xs"
  by (simp add: std_ddof_def mean_scale ssq_scale real_sqrt_mult real_sqrt_divide)

lemma np_median_scale:
  assumes "0 < k"
  shows "np_median (map ((*) k) xs) = fmul (Fin k) (np_median xs)"
proof (cases "xs = []")
  case True
  then show ?thesis by (simp add: np_median_Nil fmul_def)
next
  case False
  then show ?thesis
    using assms by (simp add: np_median_Fin median_scale fmul_Fin_pos)
qed

lemma np_std_scale:
  assumes "0 < k" and "d \<le> 1"
  shows "np_std (int d) (map ((*) k) xs) = fmul (Fin k) (np_std (int d) xs)"
proof (cases "d < length xs")
  case True
  then show ?thesis
    using assms(1) by (simp add: np_std_Fin std_ddof_scale fmul_Fin_pos)
next
  case False
  with assms(2) have "length xs \<le> 1" "int (length xs) \<le> int d" by simp_all
  then show ?thesis
    by (simp add: np_std_few fmul_def)
qed

lemma fmul_commute_pos:
  assumes "0 < c" and "0 < k"
  shows "fmul (Fin c) (fmul (Fin k) b) = fmul (Fin k) (fmul (Fin c) b)"
  using assms by (cases b) (simp_all add: fmul_def mult_less_0_iff zero_less_mult_iff)

lemma fdiv_scale:
  assumes "0 < k"
  shows "fdiv (fmul (Fin k) a) (fmul (Fin k) b) = fdiv a b"
  using assms
  by (cases a; cases b) (simp_all add: fmul_def fdiv_def mult_less_0_iff zero_less_mult_iff)

lemma caseA_scale:
  assumes "0 < k" and "0 \<le> s"
  shows "fsqrt (fdiv (Fin (k\<^sup>2 * s)) (Fin q)) = fmul (Fin k) (fsqrt (fdiv (Fin s) (Fin q)))"
proof -
  consider "q = 0" | "0 < q" | "q < 0 \<and> s = 0" | "q < 0 \<and> 0 < s"
    using assms(2) by fastforce
  then show ?thesis
  proof cases
    case 1
    then show ?thesis
      using assms by (simp add: fdiv_def fmul_def mult_less_0_iff)
  next
    case 2
    have "0 \<le> s / q" using 2 assms(2) by simp
    moreover have "0 \<le> k\<^sup>2 * s / q"
      using 2 assms(2) by (intro divide_nonneg_pos mult_nonneg_nonneg) simp_all
    ultimately have "\<not> s / q < 0" "\<not> k\<^sup>2 * s / q < 0"
      by (simp_all only: not_less)
    then show ?thesis
      using 2 assms(1)
      by (simp add: fdiv_Fin_pos fmul_Fin_pos real_sqrt_mult real_sqrt_divide)
  next
    case 3
    then show ?thesis
      using assms(1) by (simp add: fdiv_Fin fmul_def)
  next
    case 4
    then have "s / q < 0" by (simp add: divide_neg_pos divide_pos_neg field_simps)
    moreover from this have "k\<^sup>2 * s / q < 0"
      using assms(1) by (simp add: mult_less_0_iff divide_less_0_iff zero_less_mult_iff)
    ultimately show ?thesis
      using 4 assms(1) by (simp add: fdiv_Fin fmul_def)
  qed
qed

lemma snr05_scale:
  assumes "0 < k"
  shows "snr05 (map ((*) k) img) smask nmask = snr05 img smask nmask"
proof (cases "length smask = length img")
  case False
  then show ?thesis
    by (simp add: snr05_def bool_index_mismatch)
next
  case len: True
  then have len': "length smask = length (map ((*) k) img)" by simp
  show ?thesis
  proof (cases nmask)
    case None
    let ?r = "region img smask"
    have s: "ssq (median (map ((*) k) ?r)) (map ((*) k) ?r) = k\<^sup>2 * ssq (median ?r) ?r"
    proof (cases "?r = []")
      case True
      then show ?thesis by (simp add: ssq_def)
    next
      case False
      then show ?thesis by (simp add: median_scale [OF assms False] ssq_scale)
    qed
    show ?thesis
      unfolding None snr05_A [OF len] snr05_A [OF len'] region_scale s
      by (simp only: caseA_scale [OF assms ssq_nonneg] np_median_scale [OF assms]
            fdiv_scale [OF assms])
  next
    case (Some nm)
    show ?thesis
    proof (cases "length nm = length img")
      case False
      then show ?thesis
        using len by (simp add: Some snr05_def bg_std05_def bool_index_mismatch bool_index_region)
    next
      case True
      then have nl': "length nm = length (map ((*) k) img)" by simp
      have "np_std (int 1) (map ((*) k) (region img nm)) = fmul (Fin k) (np_std (int 1) (region img nm))"
        using assms by (rule np_std_scale) simp
      then have st: "np_std 1 (map ((*) k) (region img nm)) = fmul (Fin k) (np_std 1 (region img nm))"
        by simp
      show ?thesis
        unfolding Some snr05_B [OF len True] snr05_B [OF len' nl'] region_scale st
        by (simp only: fmul_commute_pos [OF rayleigh_factor_pos assms] np_median_scale [OF assms]
              fdiv_scale [OF assms])
    qed
  qed
qed

lemma snr03_scale:
  assumes "0 < k"
  shows "snr03 (map ((*) k) img) smask nmask = snr03 img smask nmask"
proof -
  let ?nm = "case nmask of None \<Rightarrow> smask | Some nm \<Rightarrow> nm"
  have "np_std (int 0) (map ((*) k) (region img ?nm)) = fmul (Fin k) (np_std (int 0) (region img ?nm))"
    using assms by (rule np_std_scale) simp
  then have st: "np_std 0 (map ((*) k) (region img ?nm)) = fmul (Fin k) (np_std 0 (region img ?nm))"
    by simp
  show ?thesis
  proof (cases "length smask = length img \<and> length ?nm = length img")
    case True
    then show ?thesis
      by (simp add: snr03_def bool_index_region region_scale st np_median_scale [OF assms]
            fdiv_scale [OF assms] Let_def)
  next
    case False
    show ?thesis
    proof (cases "length smask = length img")
      case True
      with False have "length ?nm \<noteq> length img" by simp
      with True show ?thesis
        by (simp add: snr03_def bool_index_mismatch bool_index_region Let_def)
    next
      case False
      then show ?thesis
        by (simp add: snr03_def bool_index_mismatch)
    qed
  qed
qed

text \<open>
  C4. In exact arithmetic, multiplying every intensity by the same positive factor
  changes neither the result of \<^verbatim>\<open>05_snr_dietrich2007.py\<close> nor that of
  \<^verbatim>\<open>03_snr_median.py\<close>, whatever the masks.
\<close>

theorem snr_scale_invariant:
  assumes "0 < k"
  shows "snr05 (map ((*) k) img) smask nmask = snr05 img smask nmask
       \<and> snr03 (map ((*) k) img) smask nmask = snr03 img smask nmask"
  using snr05_scale [OF assms] snr03_scale [OF assms] by (intro conjI)

lemma snr03_example: "snr03 [90, 100, 110] [1, 1, 1] None = Inr (Fin (100 / sqrt (200 / 3)))"
proof -
  have r: "region [90, 100, 110] [1, 1, 1] = [90, 100, 110]"
    by (simp add: region_def)
  have s: "ssq (mean [90, 100, 110]) [90, 100, 110] = 200"
    by (simp add: ssq_def mean_def)
  have "snr03 [90, 100, 110] [1, 1, 1] None = Inr (fdiv (Fin 100) (Fin (sqrt (200 / 3))))"
    by (simp add: snr03_def bool_index_region r np_std_0 s np_median_cases median_example)
  then show ?thesis
    by (simp add: fdiv_Fin_pos)
qed

theorem snr_scale_invariant_witness:
  "snr05 [180, 200, 220] [1, 1, 1] None = Inr (Fin 10)
   \<and> snr03 [180, 200, 220] [1, 1, 1] None = Inr (Fin (100 / sqrt (200 / 3)))"
  using snr_scale_invariant [of 2 "[90, 100, 110]" "[1, 1, 1]" None]
  by (simp add: snr05_A_example snr03_example)

subsection \<open>Scaling beyond the range of the doubles\<close>

lemma to_range_small:
  "to_range (Fin 0) = Fin 0" "to_range (Fin 1) = Fin 1" "to_range (Fin 2) = Fin 2"
  "to_range (Fin (- 1)) = Fin (- 1)"
  by (simp_all add: overflow_threshold_def underflow_threshold_def)

lemma snr05_d_unscaled: "snr05_d [1, 2, 3] [1, 1, 1] None = Inr (Fin 2)"
proof -
  have r: "bool_index [1, 2, 3] [1, 1, 1] = Inr [1, 2, 3]"
    by (simp add: bool_index_def)
  have m: "np_median_d [1, 2, 3] = Fin 2"
    by (simp add: np_median_d_def np_mean_d_def ddiv_def fdiv_def to_range_small
          del: to_range.simps)
  have b: "bg_std05_d [1, 2, 3] [1, 1, 1] None = Inr (Fin 1)"
    by (simp add: bg_std05_d_def r m dsub_def fsub_def fadd_def dmul_def fmul_def dadd_def
          ddiv_def fdiv_def to_range_small del: to_range.simps)
  show ?thesis
    by (simp add: snr05_d_def r m b ddiv_def fdiv_def to_range_small del: to_range.simps)
qed

lemma snr05_d_scaled: "snr05_d (map ((*) (10 ^ 200)) [1, 2, 3]) [1, 1, 1] None = Inr (Fin 0)"
proof -
  have i: "map ((*) (10 ^ 200)) [1, 2, 3] = [10 ^ 200, 2 * 10 ^ 200, 3 * 10 ^ 200 :: real]"
    by simp
  have r: "bool_index [10 ^ 200, 2 * 10 ^ 200, 3 * 10 ^ 200] [1, 1, 1]
         = Inr [10 ^ 200, 2 * 10 ^ 200, 3 * 10 ^ 200]"
    by (simp add: bool_index_def)
  have s: "sort [10 ^ 200, 2 * 10 ^ 200, 3 * 10 ^ 200 :: real]
         = [10 ^ 200, 2 * 10 ^ 200, 3 * 10 ^ 200]"
    by (rule sorted_sort_id) simp
  have m: "np_median_d [10 ^ 200, 2 * 10 ^ 200, 3 * 10 ^ 200] = Fin (2 * 10 ^ 200)"
    unfolding np_median_d_def Let_def s
    by (simp add: np_mean_d_def ddiv_def fdiv_def overflow_threshold_def underflow_threshold_def)
  have d: "dsub (Fin (10 ^ 200)) (Fin (2 * 10 ^ 200)) = Fin (- (10 ^ 200))"
    "dsub (Fin (2 * 10 ^ 200)) (Fin (2 * 10 ^ 200)) = Fin 0"
    "dsub (Fin (3 * 10 ^ 200)) (Fin (2 * 10 ^ 200)) = Fin (10 ^ 200)"
    by (simp_all add: dsub_def fsub_Fin overflow_threshold_def underflow_threshold_def)
  have q: "dmul (Fin (- (10 ^ 200))) (Fin (- (10 ^ 200))) = PInf"
    "dmul (Fin 0) (Fin 0) = Fin 0"
    "dmul (Fin (10 ^ 200)) (Fin (10 ^ 200)) = PInf"
    by (simp_all add: dmul_def fmul_Fin_self overflow_threshold_def underflow_threshold_def)
  have b: "bg_std05_d [10 ^ 200, 2 * 10 ^ 200, 3 * 10 ^ 200] [1, 1, 1] None = Inr PInf"
    unfolding bg_std05_d_def option.case r sum.case Let_def m list.map d q
    by (simp add: dadd_def fadd_def ddiv_def fdiv_def)
  show ?thesis
    unfolding i snr05_d_def r sum.case Let_def m b
    by (simp add: ddiv_def fdiv_def to_range_small del: to_range.simps)
qed

text \<open>
  Within the range of the doubles the invariance is lost when a squared deviation
  overflows: the region 1, 2, 3 gives 2, and the same region scaled by \<open>10 ^ 200\<close> gives 0,
  the median over an infinite noise estimate.
\<close>

theorem snr05_scaling_overflow:
  "snr05_d (map ((*) (10 ^ 200)) [1, 2, 3]) [1, 1, 1] None = Inr (Fin 0)
   \<and> snr05_d [1, 2, 3] [1, 1, 1] None = Inr (Fin 2)"
  using snr05_d_scaled snr05_d_unscaled by (intro conjI)

end
